theory Spec2Isabelle
  imports Main "HOL-Library.Word"
begin

section \<open>The zlib shim of swift-nio-extras: CNIOExtrasZlib.h\<close>

text \<open>
  The header holds three \<^verbatim>\<open>static inline\<close> functions:
  \<^verbatim>\<open>
  static inline int CNIOExtrasZlib_deflateInit2(z_streamp strm, int level, int method,
                                                int windowBits, int memLevel, int strategy) {
      return deflateInit2(strm, level, method, windowBits, memLevel, strategy);
  }
  static inline int CNIOExtrasZlib_inflateInit2(z_streamp strm, int windowBits) {
      return inflateInit2(strm, windowBits);
  }
  static inline Bytef *CNIOExtrasZlib_voidPtr_to_BytefPtr(void *in) {
      return (Bytef *)in;
  }
  \<close>
  \<^verbatim>\<open>deflateInit2\<close> and \<^verbatim>\<open>inflateInit2\<close> come from \<^verbatim>\<open><zlib.h>\<close>: they are
  not part of the header, so the model takes them as a parameter.
\<close>

subsection \<open>C data: integers and pointers\<close>

text \<open>A C \<^verbatim>\<open>int\<close> is a 32-bit word, read as two's complement by \<open>sint\<close>.\<close>

type_synonym c_int = "32 word"

text \<open>
  A pointer is an address (64 bits here; nothing below depends on the width) tagged with
  the type it points to; the tag is a phantom type, so that a cast changes the type and
  nothing else.
\<close>

type_synonym addr = "64 word"

datatype 'a ptr = Ptr (ptr_val: addr)

definition NULL :: "'a ptr" where
  "NULL = Ptr 0"

text \<open>The C cast between object pointer types, \<^verbatim>\<open>(T *)p\<close>.\<close>

definition ptr_coerce :: "'a ptr \<Rightarrow> 'b ptr" where
  "ptr_coerce p = Ptr (ptr_val p)"

text \<open>The pointees: \<^verbatim>\<open>void\<close>, zlib's \<^verbatim>\<open>Bytef\<close> (an unsigned char) and \<^verbatim>\<open>z_stream\<close>.\<close>

type_synonym c_void = unit

type_synonym Bytef = "8 word"

datatype z_stream = Z_stream_tag

type_synonym z_streamp = "z_stream ptr"

subsection \<open>zlib, the external collaborator\<close>

text \<open>
  The two routines the header calls. Each one takes the whole program state \<open>'s\<close> (the
  memory holding the \<^verbatim>\<open>z_stream\<close>, zlib's own allocations, everything else), and gives
  its \<^verbatim>\<open>int\<close> result code and the state it leaves. Nothing is assumed about them.
\<close>

record 's zlib =
  deflateInit2 :: "z_streamp \<Rightarrow> c_int \<Rightarrow> c_int \<Rightarrow> c_int \<Rightarrow> c_int \<Rightarrow> c_int \<Rightarrow> 's \<Rightarrow> c_int \<times> 's"
  inflateInit2 :: "z_streamp \<Rightarrow> c_int \<Rightarrow> 's \<Rightarrow> c_int \<times> 's"

text \<open>zlib.h's success code, \<^verbatim>\<open>#define Z_OK 0\<close>, and one of its error codes.\<close>

definition Z_OK :: c_int where
  "Z_OK = 0"

definition Z_STREAM_ERROR :: c_int where
  "Z_STREAM_ERROR = - 2"

subsection \<open>The three functions of the header\<close>

definition CNIOExtrasZlib_deflateInit2 ::
  "'s zlib \<Rightarrow> z_streamp \<Rightarrow> c_int \<Rightarrow> c_int \<Rightarrow> c_int \<Rightarrow> c_int \<Rightarrow> c_int \<Rightarrow> 's \<Rightarrow> c_int \<times> 's" where
  "CNIOExtrasZlib_deflateInit2 z strm level method windowBits memLevel strategy s =
     deflateInit2 z strm level method windowBits memLevel strategy s"

definition CNIOExtrasZlib_inflateInit2 ::
  "'s zlib \<Rightarrow> z_streamp \<Rightarrow> c_int \<Rightarrow> 's \<Rightarrow> c_int \<times> 's" where
  "CNIOExtrasZlib_inflateInit2 z strm windowBits s = inflateInit2 z strm windowBits s"

text \<open>
  The cast helper, in the same state-passing form, so that what it does to the state can
  be stated: it returns the cast pointer and the state it was given.
\<close>

definition CNIOExtrasZlib_voidPtr_to_BytefPtr :: "c_void ptr \<Rightarrow> 's \<Rightarrow> Bytef ptr \<times> 's" where
  "CNIOExtrasZlib_voidPtr_to_BytefPtr in_ptr s = (ptr_coerce in_ptr, s)"

subsection \<open>A recording zlib\<close>

text \<open>
  To observe what reaches zlib, a test double: its state is the list of the calls it has
  received, each with its arguments in their roles, and its result code is any function
  \<open>rc\<close> of the call.
\<close>

datatype zlib_call =
    DeflateInit2 (call_strm: z_streamp) (call_level: c_int) (call_method: c_int)
      (call_windowBits: c_int) (call_memLevel: c_int) (call_strategy: c_int)
  | InflateInit2 (call_strm: z_streamp) (call_windowBits: c_int)

definition recording_zlib :: "(zlib_call \<Rightarrow> c_int) \<Rightarrow> zlib_call list zlib" where
  "recording_zlib rc =
     \<lparr> deflateInit2 = (\<lambda>strm level method windowBits memLevel strategy calls.
         (rc (DeflateInit2 strm level method windowBits memLevel strategy),
          calls @ [DeflateInit2 strm level method windowBits memLevel strategy])),
       inflateInit2 = (\<lambda>strm windowBits calls.
         (rc (InflateInit2 strm windowBits), calls @ [InflateInit2 strm windowBits])) \<rparr>"

text \<open>A result-code function that rejects a null stream, as a sample failing zlib.\<close>

definition reject_null :: "zlib_call \<Rightarrow> c_int" where
  "reject_null c = (if call_strm c = NULL then Z_STREAM_ERROR else Z_OK)"

text \<open>
  What the sign of a \<^verbatim>\<open>windowBits\<close> argument is. zlib takes the raw (headerless)
  format only from a negative windowBits; a windowBits from 0 up asks for a stream
  with a zlib or gzip header. Which negative values a zlib accepts is zlib's own matter
  and is not modelled.
\<close>

definition negative_windowBits :: "c_int \<Rightarrow> bool" where
  "negative_windowBits windowBits = (sint windowBits < 0)"

section \<open>Properties\<close>

lemma recording_deflateInit2:
  "CNIOExtrasZlib_deflateInit2 (recording_zlib rc) strm level method windowBits memLevel strategy calls =
     (rc (DeflateInit2 strm level method windowBits memLevel strategy),
      calls @ [DeflateInit2 strm level method windowBits memLevel strategy])"
  by (simp add: CNIOExtrasZlib_deflateInit2_def recording_zlib_def)

lemma recording_inflateInit2:
  "CNIOExtrasZlib_inflateInit2 (recording_zlib rc) strm windowBits calls =
     (rc (InflateInit2 strm windowBits), calls @ [InflateInit2 strm windowBits])"
  by (simp add: CNIOExtrasZlib_inflateInit2_def recording_zlib_def)

text \<open>
  C1. Each wrapper returns exactly the result code that zlib's routine returns for the
  same arguments in the same state, whatever zlib is; with the recording zlib, whose
  code is any function \<open>rc\<close> of the call received, the wrapper's code is \<open>rc\<close> of the
  call made of the caller's own arguments: nothing translates, remaps or filters it.
\<close>

theorem wrappers_return_zlib_code:
  "fst (CNIOExtrasZlib_deflateInit2 z strm level method windowBits memLevel strategy s) =
     fst (deflateInit2 z strm level method windowBits memLevel strategy s)
   \<and> fst (CNIOExtrasZlib_inflateInit2 z strm windowBits s) = fst (inflateInit2 z strm windowBits s)
   \<and> fst (CNIOExtrasZlib_deflateInit2 (recording_zlib rc) strm level method windowBits memLevel strategy calls) =
       rc (DeflateInit2 strm level method windowBits memLevel strategy)
   \<and> fst (CNIOExtrasZlib_inflateInit2 (recording_zlib rc) strm windowBits calls) =
       rc (InflateInit2 strm windowBits)"
  by (simp add: CNIOExtrasZlib_deflateInit2_def CNIOExtrasZlib_inflateInit2_def recording_zlib_def)

text \<open>
  C2. \<open>CNIOExtrasZlib_deflateInit2\<close> takes the five tuning parameters (level, method,
  windowBits, memLevel, strategy) and hands each one to \<open>deflateInit2\<close> in the same
  role: the call is the direct call for any zlib, and the call the recording zlib
  receives carries each of the caller's values in its own field.
\<close>

theorem deflateInit2_forwards_all_parameters:
  "CNIOExtrasZlib_deflateInit2 z strm level method windowBits memLevel strategy s =
     deflateInit2 z strm level method windowBits memLevel strategy s
   \<and> snd (CNIOExtrasZlib_deflateInit2 (recording_zlib rc) strm level method windowBits memLevel strategy calls) =
       calls @ [DeflateInit2 strm level method windowBits memLevel strategy]
   \<and> call_level (last (snd (CNIOExtrasZlib_deflateInit2 (recording_zlib rc)
         strm level method windowBits memLevel strategy calls))) = level
   \<and> call_method (last (snd (CNIOExtrasZlib_deflateInit2 (recording_zlib rc)
         strm level method windowBits memLevel strategy calls))) = method
   \<and> call_windowBits (last (snd (CNIOExtrasZlib_deflateInit2 (recording_zlib rc)
         strm level method windowBits memLevel strategy calls))) = windowBits
   \<and> call_memLevel (last (snd (CNIOExtrasZlib_deflateInit2 (recording_zlib rc)
         strm level method windowBits memLevel strategy calls))) = memLevel
   \<and> call_strategy (last (snd (CNIOExtrasZlib_deflateInit2 (recording_zlib rc)
         strm level method windowBits memLevel strategy calls))) = strategy"
  by (simp add: recording_deflateInit2) (simp add: CNIOExtrasZlib_deflateInit2_def)

text \<open>
  C3. The wrappers have no effect of their own: the state after a wrapper call is the
  state after the direct zlib call, for any zlib; and the recording zlib sees exactly one
  call more than before, after the calls it had already received.
\<close>

theorem wrappers_only_effect_is_zlib_call:
  "snd (CNIOExtrasZlib_deflateInit2 z strm level method windowBits memLevel strategy s) =
     snd (deflateInit2 z strm level method windowBits memLevel strategy s)
   \<and> snd (CNIOExtrasZlib_inflateInit2 z strm windowBits s) = snd (inflateInit2 z strm windowBits s)
   \<and> length (snd (CNIOExtrasZlib_deflateInit2 (recording_zlib rc)
         strm level method windowBits memLevel strategy calls)) = Suc (length calls)
   \<and> take (length calls) (snd (CNIOExtrasZlib_deflateInit2 (recording_zlib rc)
         strm level method windowBits memLevel strategy calls)) = calls
   \<and> length (snd (CNIOExtrasZlib_inflateInit2 (recording_zlib rc) strm windowBits calls)) =
       Suc (length calls)
   \<and> take (length calls) (snd (CNIOExtrasZlib_inflateInit2 (recording_zlib rc) strm windowBits calls)) =
       calls"
  by (simp add: recording_deflateInit2 recording_inflateInit2)
     (simp add: CNIOExtrasZlib_deflateInit2_def CNIOExtrasZlib_inflateInit2_def)

text \<open>
  C4. The cast helper only changes the pointer's type: for every pointer, \<open>NULL\<close>
  included, the result has the address of the argument; the state comes back as it
  was (nothing is written) and the result is the same in any two states (nothing is
  read).
\<close>

theorem voidPtr_to_BytefPtr_same_address:
  "ptr_val (fst (CNIOExtrasZlib_voidPtr_to_BytefPtr p s)) = ptr_val p
   \<and> snd (CNIOExtrasZlib_voidPtr_to_BytefPtr p s) = s
   \<and> fst (CNIOExtrasZlib_voidPtr_to_BytefPtr p s) = fst (CNIOExtrasZlib_voidPtr_to_BytefPtr p s')
   \<and> fst (CNIOExtrasZlib_voidPtr_to_BytefPtr NULL s) = NULL"
  by (simp add: CNIOExtrasZlib_voidPtr_to_BytefPtr_def ptr_coerce_def NULL_def)

text \<open>
  C5, as the code has it. Each wrapper delegates to its zlib routine with the caller's
  windowBits unchanged: the wrapper call is the direct call for any zlib, the
  windowBits that reach the recording zlib are the caller's, and two calls reach zlib
  with the same windowBits only when the callers' windowBits are the same. So the
  shim fixes no stream format; the windowBits, and the format zlib is asked for
  with them, are the caller's choice.
\<close>

theorem wrappers_forward_callers_windowBits:
  "CNIOExtrasZlib_deflateInit2 z strm level method windowBits memLevel strategy s =
     deflateInit2 z strm level method windowBits memLevel strategy s
   \<and> CNIOExtrasZlib_inflateInit2 z strm windowBits s = inflateInit2 z strm windowBits s
   \<and> call_windowBits (last (snd (CNIOExtrasZlib_deflateInit2 (recording_zlib rc)
        strm level method windowBits memLevel strategy calls))) = windowBits
   \<and> call_windowBits (last (snd (CNIOExtrasZlib_inflateInit2 (recording_zlib rc)
        strm windowBits calls))) = windowBits
   \<and> (call_windowBits (last (snd (CNIOExtrasZlib_deflateInit2 (recording_zlib rc)
          strm level method windowBits memLevel strategy calls))) =
        call_windowBits (last (snd (CNIOExtrasZlib_deflateInit2 (recording_zlib rc)
          strm level method windowBits' memLevel strategy calls)))) =
       (windowBits = windowBits')
   \<and> (call_windowBits (last (snd (CNIOExtrasZlib_inflateInit2 (recording_zlib rc)
          strm windowBits calls))) =
        call_windowBits (last (snd (CNIOExtrasZlib_inflateInit2 (recording_zlib rc)
          strm windowBits' calls)))) =
       (windowBits = windowBits')"
  by (simp add: recording_deflateInit2 recording_inflateInit2)
     (simp add: CNIOExtrasZlib_deflateInit2_def CNIOExtrasZlib_inflateInit2_def)

text \<open>
  C5 as stated fails: called with windowBits 15 (zlib's \<^verbatim>\<open>MAX_WBITS\<close>, a stream with
  the zlib header), each wrapper calls its zlib routine with windowBits 15, which is
  not negative, so the call is not one configured for the raw format.
\<close>

theorem raw_format_counterexample:
  "snd (CNIOExtrasZlib_deflateInit2 (recording_zlib reject_null) (Ptr 4096) 6 8 15 8 0 []) =
     [DeflateInit2 (Ptr 4096) 6 8 15 8 0]
   \<and> \<not> negative_windowBits (call_windowBits (last (snd (CNIOExtrasZlib_deflateInit2
         (recording_zlib reject_null) (Ptr 4096) 6 8 15 8 0 []))))
   \<and> snd (CNIOExtrasZlib_inflateInit2 (recording_zlib reject_null) (Ptr 4096) 15 []) =
       [InflateInit2 (Ptr 4096) 15]
   \<and> \<not> negative_windowBits (call_windowBits (last (snd (CNIOExtrasZlib_inflateInit2
         (recording_zlib reject_null) (Ptr 4096) 15 []))))"
  by (simp add: recording_deflateInit2 recording_inflateInit2 negative_windowBits_def)

text \<open>A caller's negative windowBits reach zlib as they are, too.\<close>

lemma negative_windowBits_forwarded:
  "snd (CNIOExtrasZlib_deflateInit2 (recording_zlib reject_null) (Ptr 4096) 6 8 (- 15) 8 0 []) =
     [DeflateInit2 (Ptr 4096) 6 8 (- 15) 8 0]
   \<and> negative_windowBits (call_windowBits (last (snd (CNIOExtrasZlib_deflateInit2
        (recording_zlib reject_null) (Ptr 4096) 6 8 (- 15) 8 0 []))))
   \<and> snd (CNIOExtrasZlib_inflateInit2 (recording_zlib reject_null) (Ptr 4096) (- 15) []) =
       [InflateInit2 (Ptr 4096) (- 15)]
   \<and> negative_windowBits (call_windowBits (last (snd (CNIOExtrasZlib_inflateInit2
        (recording_zlib reject_null) (Ptr 4096) (- 15) []))))"
  by (simp add: recording_deflateInit2 recording_inflateInit2 negative_windowBits_def)

text \<open>
  C6. The shim has no failure of its own: when zlib's routine returns \<open>Z_OK\<close> so does
  the wrapper, and a result other than \<open>Z_OK\<close> that the caller sees is the one zlib's
  routine returned.
\<close>

theorem shim_has_no_failure_of_its_own:
  "(fst (deflateInit2 z strm level method windowBits memLevel strategy s) = Z_OK \<longrightarrow>
      fst (CNIOExtrasZlib_deflateInit2 z strm level method windowBits memLevel strategy s) = Z_OK)
   \<and> (fst (CNIOExtrasZlib_deflateInit2 z strm level method windowBits memLevel strategy s) \<noteq> Z_OK \<longrightarrow>
      fst (CNIOExtrasZlib_deflateInit2 z strm level method windowBits memLevel strategy s) =
        fst (deflateInit2 z strm level method windowBits memLevel strategy s))
   \<and> (fst (inflateInit2 z istrm iwindowBits t) = Z_OK \<longrightarrow>
      fst (CNIOExtrasZlib_inflateInit2 z istrm iwindowBits t) = Z_OK)
   \<and> (fst (CNIOExtrasZlib_inflateInit2 z istrm iwindowBits t) \<noteq> Z_OK \<longrightarrow>
      fst (CNIOExtrasZlib_inflateInit2 z istrm iwindowBits t) = fst (inflateInit2 z istrm iwindowBits t))"
  by (simp add: CNIOExtrasZlib_deflateInit2_def CNIOExtrasZlib_inflateInit2_def)

theorem shim_has_no_failure_of_its_own_witness:
  "fst (deflateInit2 (recording_zlib reject_null) (Ptr 4096) 6 8 15 8 0 []) = Z_OK
   \<and> fst (CNIOExtrasZlib_deflateInit2 (recording_zlib reject_null) (Ptr 4096) 6 8 15 8 0 []) = Z_OK
   \<and> fst (inflateInit2 (recording_zlib reject_null) (Ptr 4096) 15 []) = Z_OK
   \<and> fst (CNIOExtrasZlib_inflateInit2 (recording_zlib reject_null) (Ptr 4096) 15 []) = Z_OK
   \<and> fst (CNIOExtrasZlib_deflateInit2 (recording_zlib reject_null) NULL 6 8 15 8 0 []) \<noteq> Z_OK
   \<and> fst (CNIOExtrasZlib_deflateInit2 (recording_zlib reject_null) NULL 6 8 15 8 0 []) =
       fst (deflateInit2 (recording_zlib reject_null) NULL 6 8 15 8 0 [])
   \<and> fst (CNIOExtrasZlib_inflateInit2 (recording_zlib reject_null) NULL 15 []) \<noteq> Z_OK
   \<and> fst (CNIOExtrasZlib_inflateInit2 (recording_zlib reject_null) NULL 15 []) =
       fst (inflateInit2 (recording_zlib reject_null) NULL 15 [])"
proof -
  have d_ok: "fst (deflateInit2 (recording_zlib reject_null) (Ptr 4096) 6 8 15 8 0 []) = Z_OK"
    by (simp add: recording_zlib_def reject_null_def NULL_def)
  have i_ok: "fst (inflateInit2 (recording_zlib reject_null) (Ptr 4096) 15 []) = Z_OK"
    by (simp add: recording_zlib_def reject_null_def NULL_def)
  have d_err: "fst (CNIOExtrasZlib_deflateInit2 (recording_zlib reject_null) NULL 6 8 15 8 0 []) \<noteq> Z_OK"
    by (simp add: recording_deflateInit2 reject_null_def Z_OK_def Z_STREAM_ERROR_def)
  have i_err: "fst (CNIOExtrasZlib_inflateInit2 (recording_zlib reject_null) NULL 15 []) \<noteq> Z_OK"
    by (simp add: recording_inflateInit2 reject_null_def Z_OK_def Z_STREAM_ERROR_def)
  note ok = shim_has_no_failure_of_its_own
    [of "recording_zlib reject_null" "Ptr 4096" 6 8 15 8 0 "[]" "Ptr 4096" 15 "[]"]
  note err = shim_has_no_failure_of_its_own
    [of "recording_zlib reject_null" NULL 6 8 15 8 0 "[]" NULL 15 "[]"]
  from ok d_ok i_ok
  have "fst (CNIOExtrasZlib_deflateInit2 (recording_zlib reject_null) (Ptr 4096) 6 8 15 8 0 []) = Z_OK
      \<and> fst (CNIOExtrasZlib_inflateInit2 (recording_zlib reject_null) (Ptr 4096) 15 []) = Z_OK"
    by blast
  moreover from err d_err i_err
  have "fst (CNIOExtrasZlib_deflateInit2 (recording_zlib reject_null) NULL 6 8 15 8 0 []) =
          fst (deflateInit2 (recording_zlib reject_null) NULL 6 8 15 8 0 [])
      \<and> fst (CNIOExtrasZlib_inflateInit2 (recording_zlib reject_null) NULL 15 []) =
          fst (inflateInit2 (recording_zlib reject_null) NULL 15 [])"
    by blast
  ultimately show ?thesis using d_ok i_ok d_err i_err by blast
qed

text \<open>
  C7. Casting the helper's result back to a void pointer gives the argument again, and
  \<open>NULL\<close> goes to \<open>NULL\<close>. The helper is a function with no failing path: for every
  pointer it returns a pointer, and the state unchanged.
\<close>

theorem voidPtr_to_BytefPtr_round_trip:
  "ptr_coerce (fst (CNIOExtrasZlib_voidPtr_to_BytefPtr p s)) = p
   \<and> fst (CNIOExtrasZlib_voidPtr_to_BytefPtr NULL s) = NULL
   \<and> ptr_coerce (fst (CNIOExtrasZlib_voidPtr_to_BytefPtr NULL s)) = (NULL :: c_void ptr)
   \<and> (\<exists>q. CNIOExtrasZlib_voidPtr_to_BytefPtr p s = (q, s) \<and> ptr_coerce q = p)"
  by (simp add: CNIOExtrasZlib_voidPtr_to_BytefPtr_def ptr_coerce_def NULL_def)

text \<open>
  C9. Neither wrapper checks an argument: as functions of all their arguments the
  wrappers are zlib's routines, with no precondition; and a null \<open>strm\<close> with any
  level, method, windowBits, memLevel and strategy reaches the recording zlib as it
  is, the result being what zlib answers to that call.
\<close>

theorem wrappers_do_not_validate:
  "CNIOExtrasZlib_deflateInit2 z = deflateInit2 z
   \<and> CNIOExtrasZlib_inflateInit2 z = inflateInit2 z
   \<and> CNIOExtrasZlib_deflateInit2 (recording_zlib rc) NULL level method windowBits memLevel strategy calls =
       (rc (DeflateInit2 NULL level method windowBits memLevel strategy),
        calls @ [DeflateInit2 NULL level method windowBits memLevel strategy])
   \<and> CNIOExtrasZlib_inflateInit2 (recording_zlib rc) NULL windowBits calls =
       (rc (InflateInit2 NULL windowBits), calls @ [InflateInit2 NULL windowBits])"
  by (simp add: recording_deflateInit2 recording_inflateInit2 fun_eq_iff)
     (simp add: CNIOExtrasZlib_deflateInit2_def CNIOExtrasZlib_inflateInit2_def)

end
